theory Spec2Isabelle
  imports Complex_Main "HOL-Library.Char_ord"
begin

section \<open>Money, rounding and strings\<close>

text \<open>
  Every monetary column of \<^verbatim>\<open>app/models/wallet.py\<close> is \<^verbatim>\<open>Numeric(14, 2)\<close>. An amount is
  modelled by the number of minor units (pesewas) it holds, so \<^verbatim>\<open>500.00\<close> is \<open>50000\<close>.
  Python's \<^verbatim>\<open>round(x, 2)\<close> becomes \<open>py_round\<close> applied to the value of \<open>x\<close> in minor
  units: it rounds an exact rational to the nearest integer, ties to the even one.
  The binary representation error of Python floats is outside this model.
\<close>

type_synonym money = int

definition py_round :: "rat \<Rightarrow> int" where
  "py_round x =
     (let f = \<lfloor>x\<rfloor>; d = x - of_int f
      in if d < 1 / 2 then f
         else if 1 / 2 < d then f + 1
         else if even f then f else f + 1)"

text \<open>\<^verbatim>\<open>str.lower()\<close> on the ASCII letters, which are the only ones the compared words hold.\<close>

definition lower_char :: "char \<Rightarrow> char" where
  "lower_char c =
     (if CHR ''A'' \<le> c \<and> c \<le> CHR ''Z'' then char_of (of_char c + (32::nat)) else c)"

definition lower :: "string \<Rightarrow> string" where
  "lower s = map lower_char s"

section \<open>Rows and tables\<close>

text \<open>
  A table is the list of its rows and the primary key of a row is its position; rows are
  never deleted. \<open>row\<close> is a \<^verbatim>\<open>SELECT ... WHERE id = i\<close> followed by
  \<^verbatim>\<open>scalar_one_or_none()\<close>, \<open>first_index\<close> the same for a column that carries a uniqueness
  constraint, and \<open>upd\<close> the in-place mutation of a loaded row.
\<close>

definition row :: "'a list \<Rightarrow> nat \<Rightarrow> 'a option" where
  "row xs i = (if i < length xs then Some (xs ! i) else None)"

fun first_index :: "('a \<Rightarrow> bool) \<Rightarrow> 'a list \<Rightarrow> nat option" where
  "first_index P [] = None"
| "first_index P (x # xs) = (if P x then Some 0 else map_option Suc (first_index P xs))"

definition upd :: "'a list \<Rightarrow> nat \<Rightarrow> ('a \<Rightarrow> 'a) \<Rightarrow> 'a list" where
  "upd xs i f = (if i < length xs then xs[i := f (xs ! i)] else xs)"

section \<open>The data model of \<^verbatim>\<open>app/models/wallet.py\<close>\<close>

datatype WalletStatus = ACTIVE | FROZEN | CLOSED

datatype TransactionType =
  DEPOSIT | WITHDRAWAL | ESCROW_HOLD | ESCROW_RELEASE | ESCROW_REFUND
  | COMMISSION | TRANSFER_IN | TRANSFER_OUT | ADJUSTMENT

datatype TransactionStatus = PENDING | PROCESSING | COMPLETED | FAILED | REVERSED

datatype EscrowStatus = HELD | RELEASED | REFUNDED | DISPUTED | PARTIALLY_RELEASED

datatype MoMoDirection = COLLECTION | DISBURSEMENT

datatype MoMoStatus =
  MoMo_INITIATED | MoMo_PENDING | MoMo_SUCCESS | MoMo_FAILED | MoMo_TIMEOUT | MoMo_CANCELLED

datatype PayoutStatus =
  Payout_SCHEDULED | Payout_PROCESSING | Payout_COMPLETED | Payout_FAILED | Payout_CANCELLED

datatype DisputeStatus =
  OPEN | UNDER_REVIEW | RESOLVED_SHIPPER | RESOLVED_COURIER | RESOLVED_SPLIT
  | ESCALATED | Dispute_CLOSED

datatype TripStatus =
  PICKUP_PENDING | PICKED_UP | IN_TRANSIT | AT_WAYPOINT | DELIVERED | CONFIRMED
  | Trip_DISPUTED | Trip_CANCELLED

text \<open>
  The records keep the columns that some branch of the endpoints reads or writes.
  Timestamps, free-text descriptions, phone numbers, providers and callback URLs are
  written once and never read by any decision, and are left out.
\<close>

record Wallet =
  w_user_id :: nat
  w_currency :: string
  w_balance :: money
  w_escrow_balance :: money
  w_total_deposited :: money
  w_total_withdrawn :: money
  w_total_earned :: money
  w_status :: WalletStatus

record Transaction =
  t_wallet_id :: nat
  t_type :: TransactionType
  t_amount :: money
  t_currency :: string
  t_fee :: money
  t_net_amount :: money
  t_balance_after :: money
  t_status :: TransactionStatus
  t_reference_type :: "string option"
  t_reference_id :: "nat option"

record EscrowHold =
  e_trip_id :: nat
  e_listing_id :: nat
  e_shipper_wallet_id :: nat
  e_courier_wallet_id :: "nat option"
  e_amount :: money
  e_currency :: string
  e_platform_commission_rate :: rat
  e_platform_commission_amount :: "money option"
  e_courier_payout_amount :: "money option"
  e_status :: EscrowStatus

record MoMoPayment =
  m_wallet_id :: nat
  m_transaction_id :: "nat option"
  m_direction :: MoMoDirection
  m_amount :: money
  m_currency :: string
  m_fee :: money
  m_external_transaction_id :: "string option"
  m_provider_reference :: "string option"
  m_status :: MoMoStatus
  m_failure_reason :: "string option"

record PayoutSchedule =
  p_courier_id :: nat
  p_wallet_id :: nat
  p_escrow_id :: nat
  p_trip_id :: nat
  p_amount :: money
  p_currency :: string
  p_status :: PayoutStatus

record Dispute =
  d_trip_id :: nat
  d_escrow_id :: nat
  d_raised_by_user_id :: nat
  d_against_user_id :: nat
  d_status :: DisputeStatus
  d_resolved_by_user_id :: "nat option"
  d_shipper_refund_amount :: "money option"
  d_courier_payout_amount :: "money option"

text \<open>The part of \<^verbatim>\<open>app/models/freight.py\<close> and \<^verbatim>\<open>app/models/user.py\<close> the endpoints read.\<close>

record FreightListing =
  l_id :: nat
  l_shipper_id :: nat

record FreightBid =
  b_price :: money
  b_currency :: string

record FreightTrip =
  trip_status :: TripStatus
  trip_courier_id :: nat
  trip_listing :: "FreightListing option"
  trip_bid :: "FreightBid option"

record User =
  u_id :: nat
  u_org_id :: "nat option"
  u_role_names :: "string list"

text \<open>The database session: one list of rows for each table.\<close>

record db =
  wallets :: "Wallet list"
  transactions :: "Transaction list"
  escrow_holds :: "EscrowHold list"
  momo_payments :: "MoMoPayment list"
  payout_schedules :: "PayoutSchedule list"
  disputes :: "Dispute list"
  freight_trips :: "FreightTrip list"

text \<open>
  Every \<^verbatim>\<open>raise HTTPException\<close> of the endpoints is a constructor, with its status code
  given by \<open>status_code\<close>. \<open>IntegrityError\<close> is the database refusing a row that breaks a
  uniqueness or foreign-key constraint at \<^verbatim>\<open>flush\<close>, \<open>NoResultFound\<close> is \<^verbatim>\<open>scalar_one()\<close>
  finding no row, and \<open>RequestValidationError\<close> is the request schema refusing the body.
  A request that fails returns no new state: its transaction is rolled back.
\<close>

datatype error =
  Insufficient_permissions
  | Trip_not_found
  | Trip_not_pickup_pending
  | Escrow_already_exists
  | Trip_has_no_bid
  | Trip_has_no_listing
  | Shipper_has_no_wallet
  | Shipper_wallet_frozen_or_closed
  | Insufficient_shipper_balance
  | Escrow_hold_not_found
  | Escrow_not_held
  | Associated_trip_not_found
  | Trip_not_confirmed
  | Only_shipper_or_admin
  | Cannot_refund_escrow
  | Trip_not_disputable
  | Only_shipper_or_courier
  | No_escrow_for_trip
  | Dispute_already_open
  | Dispute_not_found
  | Cannot_resolve_dispute
  | No_escrow_for_dispute
  | Split_exceeds_escrow
  | Wallet_frozen_or_closed
  | Insufficient_balance
  | MoMo_payment_not_found
  | IntegrityError
  | NoResultFound
  | RequestValidationError

fun status_code :: "error \<Rightarrow> nat" where
  "status_code Insufficient_permissions = 403"
| "status_code Trip_not_found = 404"
| "status_code Trip_not_pickup_pending = 400"
| "status_code Escrow_already_exists = 409"
| "status_code Trip_has_no_bid = 400"
| "status_code Trip_has_no_listing = 400"
| "status_code Shipper_has_no_wallet = 400"
| "status_code Shipper_wallet_frozen_or_closed = 400"
| "status_code Insufficient_shipper_balance = 400"
| "status_code Escrow_hold_not_found = 404"
| "status_code Escrow_not_held = 400"
| "status_code Associated_trip_not_found = 400"
| "status_code Trip_not_confirmed = 400"
| "status_code Only_shipper_or_admin = 403"
| "status_code Cannot_refund_escrow = 400"
| "status_code Trip_not_disputable = 400"
| "status_code Only_shipper_or_courier = 403"
| "status_code No_escrow_for_trip = 400"
| "status_code Dispute_already_open = 409"
| "status_code Dispute_not_found = 404"
| "status_code Cannot_resolve_dispute = 400"
| "status_code No_escrow_for_dispute = 400"
| "status_code Split_exceeds_escrow = 400"
| "status_code Wallet_frozen_or_closed = 400"
| "status_code Insufficient_balance = 400"
| "status_code MoMo_payment_not_found = 404"
| "status_code IntegrityError = 500"
| "status_code NoResultFound = 500"
| "status_code RequestValidationError = 422"

section \<open>Wallet endpoints (\<^verbatim>\<open>app/api/v1/endpoints/wallets.py\<close>)\<close>

definition new_wallet :: "nat \<Rightarrow> string \<Rightarrow> Wallet" where
  "new_wallet uid cur =
     \<lparr>w_user_id = uid, w_currency = cur, w_balance = 0, w_escrow_balance = 0,
      w_total_deposited = 0, w_total_withdrawn = 0, w_total_earned = 0,
      w_status = ACTIVE\<rparr>"

definition wallet_of :: "nat \<Rightarrow> string \<Rightarrow> Wallet \<Rightarrow> bool" where
  "wallet_of uid cur w = (w_user_id w = uid \<and> w_currency w = cur)"










record MoMoCallbackPayload =
  cb_external_transaction_id :: string
  cb_status :: string
  cb_provider_reference :: "string option"
  cb_message :: "string option"

text \<open>The update of the ledger entry a payment points to, when there is one.\<close>

definition set_txn :: "db \<Rightarrow> nat option \<Rightarrow> (Transaction \<Rightarrow> Transaction) \<Rightarrow> db" where
  "set_txn s tid f =
     (case tid of
        None \<Rightarrow> s
      | Some i \<Rightarrow> s\<lparr>transactions := upd (transactions s) i f\<rparr>)"

definition failure_reason_of :: "MoMoCallbackPayload \<Rightarrow> string" where
  "failure_reason_of body =
     (case cb_message body of
        None \<Rightarrow> ''Payment '' @ cb_status body
      | Some msg \<Rightarrow> if msg = [] then ''Payment '' @ cb_status body else msg)"

definition momo_callback :: "db \<Rightarrow> MoMoCallbackPayload \<Rightarrow> error + db \<times> string" where
  "momo_callback s body =
     (case first_index
             (\<lambda>m. m_external_transaction_id m = Some (cb_external_transaction_id body))
             (momo_payments s) of
        None \<Rightarrow> Inl MoMo_payment_not_found
      | Some mid \<Rightarrow>
          let momo = momo_payments s ! mid
          in if m_status momo = MoMo_SUCCESS \<or> m_status momo = MoMo_FAILED
             then Inr (s, ''Payment already processed'')
             else if lower (cb_status body) = ''success'' then
               let s1 = s\<lparr>momo_payments := upd (momo_payments s) mid
                             (\<lambda>m. m\<lparr>m_status := MoMo_SUCCESS,
                                    m_provider_reference := cb_provider_reference body\<rparr>)\<rparr>
               in if m_direction momo = COLLECTION then
                    (case row (wallets s1) (m_wallet_id momo) of
                       None \<Rightarrow> Inl NoResultFound
                     | Some wallet \<Rightarrow>
                         let s2 = s1\<lparr>wallets := upd (wallets s1) (m_wallet_id momo)
                                       (\<lambda>w. w\<lparr>w_balance := w_balance w + m_amount momo,
                                              w_total_deposited :=
                                                w_total_deposited w + m_amount momo\<rparr>)\<rparr>;
                             s3 = set_txn s2 (m_transaction_id momo)
                                    (\<lambda>t. t\<lparr>t_status := COMPLETED,
                                           t_balance_after :=
                                             w_balance (wallets s2 ! m_wallet_id momo)\<rparr>)
                         in Inr (s3, ''Callback processed: '' @ cb_status body))
                  else
                    Inr (set_txn s1 (m_transaction_id momo) (\<lambda>t. t\<lparr>t_status := COMPLETED\<rparr>),
                         ''Callback processed: '' @ cb_status body)
             else if lower (cb_status body) \<in> {''failed'', ''timeout'', ''cancelled''} then
               let s1 = s\<lparr>momo_payments := upd (momo_payments s) mid
                             (\<lambda>m. m\<lparr>m_status := MoMo_FAILED,
                                    m_failure_reason := Some (failure_reason_of body)\<rparr>)\<rparr>
               in if m_direction momo = DISBURSEMENT then
                    (case row (wallets s1) (m_wallet_id momo) of
                       None \<Rightarrow> Inl NoResultFound
                     | Some wallet \<Rightarrow>
                         let reversal_amount = m_amount momo + m_fee momo;
                             s2 = s1\<lparr>wallets := upd (wallets s1) (m_wallet_id momo)
                                       (\<lambda>w. w\<lparr>w_balance := w_balance w + reversal_amount,
                                              w_total_withdrawn :=
                                                w_total_withdrawn w - m_amount momo\<rparr>)\<rparr>
                         in Inr (set_txn s2 (m_transaction_id momo) (\<lambda>t. t\<lparr>t_status := FAILED\<rparr>),
                                 ''Callback processed: '' @ cb_status body))
                  else
                    Inr (set_txn s1 (m_transaction_id momo) (\<lambda>t. t\<lparr>t_status := FAILED\<rparr>),
                         ''Callback processed: '' @ cb_status body)
             else Inr (s, ''Callback processed: '' @ cb_status body))"

section \<open>Authorisation (\<^verbatim>\<open>app/api/deps/auth.py\<close>)\<close>

definition RoleChecker :: "string list \<Rightarrow> User \<Rightarrow> error + User" where
  "RoleChecker required_roles user =
     (if list_ex (\<lambda>role. role \<in> set (u_role_names user)) required_roles
      then Inr user else Inl Insufficient_permissions)"

definition require_system_admin :: "User \<Rightarrow> error + User" where
  "require_system_admin = RoleChecker [''system_admin'']"

definition require_any_authenticated :: "User \<Rightarrow> error + User" where
  "require_any_authenticated =
     RoleChecker [''system_admin'', ''org_admin'', ''shipper'', ''courier'',
                  ''shipper_viewer'', ''courier_driver'', ''support_agent'']"

section \<open>Escrow endpoints (\<^verbatim>\<open>app/api/v1/endpoints/escrow.py\<close>)\<close>

definition PLATFORM_COMMISSION_RATE :: rat where
  "PLATFORM_COMMISSION_RATE = 5 / 100"

definition get_wallet_for_user :: "db \<Rightarrow> nat \<Rightarrow> string \<Rightarrow> nat option" where
  "get_wallet_for_user s uid cur = first_index (wallet_of uid cur) (wallets s)"

text \<open>
  \<^verbatim>\<open>db.add(Wallet(...)); await db.flush()\<close>: the table has the uniqueness constraint
  \<^verbatim>\<open>uq_wallet_user_currency\<close>, so the flush fails when the user already has a wallet in
  that currency.
\<close>

definition add_wallet :: "db \<Rightarrow> nat \<Rightarrow> string \<Rightarrow> error + db \<times> nat" where
  "add_wallet s uid cur =
     (if first_index (wallet_of uid cur) (wallets s) \<noteq> None then Inl IntegrityError
      else Inr (s\<lparr>wallets := wallets s @ [new_wallet uid cur]\<rparr>, length (wallets s)))"

definition completed_txn ::
  "nat \<Rightarrow> TransactionType \<Rightarrow> money \<Rightarrow> string \<Rightarrow> money \<Rightarrow> money \<Rightarrow> string \<Rightarrow> nat
   \<Rightarrow> Transaction" where
  "completed_txn wid ty amount cur fee bal ref_type ref_id =
     \<lparr>t_wallet_id = wid, t_type = ty, t_amount = amount, t_currency = cur, t_fee = fee,
      t_net_amount = amount, t_balance_after = bal, t_status = COMPLETED,
      t_reference_type = Some ref_type, t_reference_id = Some ref_id\<rparr>"

definition add_txn :: "db \<Rightarrow> Transaction \<Rightarrow> db" where
  "add_txn s t = s\<lparr>transactions := transactions s @ [t]\<rparr>"

definition create_escrow_hold :: "db \<Rightarrow> nat \<Rightarrow> User \<Rightarrow> error + db \<times> nat" where
  "create_escrow_hold s trip_id user0 =
     (case require_any_authenticated user0 of
        Inl e \<Rightarrow> Inl e
      | Inr user \<Rightarrow>
     (case row (freight_trips s) trip_id of
        None \<Rightarrow> Inl Trip_not_found
      | Some trip \<Rightarrow>
          if trip_status trip \<noteq> PICKUP_PENDING then Inl Trip_not_pickup_pending
          else if first_index (\<lambda>e. e_trip_id e = trip_id) (escrow_holds s) \<noteq> None
          then Inl Escrow_already_exists
          else
     (case trip_bid trip of
        None \<Rightarrow> Inl Trip_has_no_bid
      | Some bid \<Rightarrow>
     (case trip_listing trip of
        None \<Rightarrow> Inl Trip_has_no_listing
      | Some listing \<Rightarrow>
          let amount = b_price bid; cur = b_currency bid
          in
     (case get_wallet_for_user s (l_shipper_id listing) cur of
        None \<Rightarrow> Inl Shipper_has_no_wallet
      | Some swid \<Rightarrow>
          if w_status (wallets s ! swid) \<noteq> ACTIVE then Inl Shipper_wallet_frozen_or_closed
          else if w_balance (wallets s ! swid) < amount then Inl Insufficient_shipper_balance
          else
            let courier_wallet_id = get_wallet_for_user s (trip_courier_id trip) cur;
                s1 = s\<lparr>wallets := upd (wallets s) swid
                          (\<lambda>w. w\<lparr>w_balance := w_balance w - amount,
                                 w_escrow_balance := w_escrow_balance w + amount\<rparr>)\<rparr>;
                escrow = \<lparr>e_trip_id = trip_id, e_listing_id = l_id listing,
                          e_shipper_wallet_id = swid,
                          e_courier_wallet_id = courier_wallet_id,
                          e_amount = amount, e_currency = cur,
                          e_platform_commission_rate = PLATFORM_COMMISSION_RATE,
                          e_platform_commission_amount = None,
                          e_courier_payout_amount = None, e_status = HELD\<rparr>;
                escrow_id = length (escrow_holds s1);
                s2 = s1\<lparr>escrow_holds := escrow_holds s1 @ [escrow]\<rparr>;
                s3 = add_txn s2 (completed_txn swid ESCROW_HOLD amount cur 0
                                  (w_balance (wallets s2 ! swid)) ''escrow'' escrow_id)
            in Inr (s3, escrow_id))))))"

text \<open>
  The commission of \<open>release_escrow\<close> and of the courier outcome of \<open>resolve_dispute\<close>:
  \<^verbatim>\<open>round(amount * PLATFORM_COMMISSION_RATE, 2)\<close> and \<^verbatim>\<open>round(amount - commission, 2)\<close>.
\<close>

definition commission_of :: "money \<Rightarrow> money" where
  "commission_of amount = py_round (of_int amount * PLATFORM_COMMISSION_RATE)"

definition courier_payout_of :: "money \<Rightarrow> money" where
  "courier_payout_of amount = py_round (of_int amount - of_int (commission_of amount))"












text \<open>
  The wallet a dispute outcome pays the courier into, when the hold names none that exists.
  The new wallet belongs to \<^verbatim>\<open>trip.courier_id\<close>. Without a trip the source falls back on
  a value that is not the id of a user (\<^verbatim>\<open>escrow.courier_wallet_id\<close>, or a fresh
  \<^verbatim>\<open>uuid4()\<close>), which the foreign key of \<^verbatim>\<open>wallets.user_id\<close> refuses.
\<close>

definition courier_wallet_or_new ::
  "db \<Rightarrow> nat option \<Rightarrow> FreightTrip option \<Rightarrow> string \<Rightarrow> error + db \<times> nat" where
  "courier_wallet_or_new s courier_wallet trip cur =
     (case courier_wallet of
        Some cid \<Rightarrow> Inr (s, cid)
      | None \<Rightarrow>
          (case trip of
             None \<Rightarrow> Inl IntegrityError
           | Some t \<Rightarrow> add_wallet s (trip_courier_id t) cur))"






section \<open>Accounting quantities and request sequences\<close>

text \<open>
  \<open>wallet_total\<close> is the sum over all wallets of available plus escrow balance,
  \<open>commission_total\<close> the sum of the amounts of all \<open>COMMISSION\<close> ledger entries, and
  \<open>completed_total ty\<close> the sum of the amounts of the completed entries of type \<open>ty\<close>.
  A request that the endpoint rejects leaves the database as it was.
\<close>

definition wallet_funds :: "Wallet \<Rightarrow> money" where
  "wallet_funds w = w_balance w + w_escrow_balance w"

definition wallet_total :: "Wallet list \<Rightarrow> money" where
  "wallet_total ws = sum_list (map wallet_funds ws)"

definition commission_total :: "Transaction list \<Rightarrow> money" where
  "commission_total ts = sum_list (map t_amount (filter (\<lambda>t. t_type t = COMMISSION) ts))"

definition completed_total :: "TransactionType \<Rightarrow> Transaction list \<Rightarrow> money" where
  "completed_total ty ts =
     sum_list (map t_amount (filter (\<lambda>t. t_type t = ty \<and> t_status t = COMPLETED) ts))"

definition funds :: "db \<Rightarrow> money" where
  "funds s = wallet_total (wallets s) + commission_total (transactions s)"

definition net_deposits :: "db \<Rightarrow> money" where
  "net_deposits s =
     completed_total DEPOSIT (transactions s) - completed_total WITHDRAWAL (transactions s)"




section \<open>Example data\<close>

definition ex_user :: User where
  "ex_user = \<lparr>u_id = 1, u_org_id = None, u_role_names = [''shipper'']\<rparr>"

definition ex_wallet :: "nat \<Rightarrow> money \<Rightarrow> money \<Rightarrow> Wallet" where
  "ex_wallet uid b e =
     \<lparr>w_user_id = uid, w_currency = ''GHS'', w_balance = b, w_escrow_balance = e,
      w_total_deposited = b + e, w_total_withdrawn = 0, w_total_earned = 0,
      w_status = ACTIVE\<rparr>"

definition empty_db :: db where
  "empty_db = \<lparr>wallets = [], transactions = [], escrow_holds = [], momo_payments = [],
               payout_schedules = [], disputes = [], freight_trips = []\<rparr>"




definition ex_timeout_db :: db where
  "ex_timeout_db = empty_db
     \<lparr>wallets := [(ex_wallet 1 49500 0)\<lparr>w_total_deposited := 100000, w_total_withdrawn := 50000\<rparr>],
      transactions :=
        [\<lparr>t_wallet_id = 0, t_type = WITHDRAWAL, t_amount = 50000, t_currency = ''GHS'',
          t_fee = 500, t_net_amount = 50000, t_balance_after = 49500,
          t_status = PROCESSING, t_reference_type = Some ''momo_payment'',
          t_reference_id = Some 0\<rparr>],
      momo_payments :=
        [\<lparr>m_wallet_id = 0, m_transaction_id = Some 0, m_direction = DISBURSEMENT,
          m_amount = 50000, m_currency = ''GHS'', m_fee = 500,
          m_external_transaction_id = Some ''MOMO-D-1'', m_provider_reference = None,
          m_status = MoMo_TIMEOUT, m_failure_reason = None\<rparr>]\<rparr>"


definition ex_callback :: "string \<Rightarrow> MoMoCallbackPayload" where
  "ex_callback st = \<lparr>cb_external_transaction_id = ''MOMO-D-1'', cb_status = st,
     cb_provider_reference = None, cb_message = None\<rparr>"

definition ex_courier :: User where
  "ex_courier = \<lparr>u_id = 2, u_org_id = None, u_role_names = [''courier'']\<rparr>"

definition ex_admin :: User where
  "ex_admin = \<lparr>u_id = 3, u_org_id = None, u_role_names = [''system_admin'']\<rparr>"

definition ex_trip :: "TripStatus \<Rightarrow> FreightTrip" where
  "ex_trip st = \<lparr>trip_status = st, trip_courier_id = 2,
     trip_listing = Some \<lparr>l_id = 0, l_shipper_id = 1\<rparr>,
     trip_bid = Some \<lparr>b_price = 100000, b_currency = ''GHS''\<rparr>\<rparr>"

definition ex_deposit_txn :: Transaction where
  "ex_deposit_txn = \<lparr>t_wallet_id = 0, t_type = DEPOSIT, t_amount = 100000,
     t_currency = ''GHS'', t_fee = 0, t_net_amount = 100000, t_balance_after = 100000,
     t_status = COMPLETED, t_reference_type = Some ''momo_payment'', t_reference_id = Some 0\<rparr>"

definition ex_hold :: "rat \<Rightarrow> EscrowStatus \<Rightarrow> EscrowHold" where
  "ex_hold rate st = \<lparr>e_trip_id = 0, e_listing_id = 0, e_shipper_wallet_id = 0,
     e_courier_wallet_id = Some 1, e_amount = 100000, e_currency = ''GHS'',
     e_platform_commission_rate = rate, e_platform_commission_amount = None,
     e_courier_payout_amount = None, e_status = st\<rparr>"


definition ex_held_db :: "TripStatus \<Rightarrow> rat \<Rightarrow> db" where
  "ex_held_db trip_st rate = empty_db
     \<lparr>wallets := [ex_wallet 1 0 100000, ex_wallet 2 0 0],
      transactions := [ex_deposit_txn,
        completed_txn 0 ESCROW_HOLD 100000 ''GHS'' 0 0 ''escrow'' 0],
      escrow_holds := [ex_hold rate HELD],
      freight_trips := [ex_trip trip_st]\<rparr>"


section \<open>Auxiliary facts\<close>

lemma py_round_of_int: "py_round (of_int n) = n"
  by (simp add: py_round_def)


lemma first_index_None: "(first_index P xs = None) = (\<forall>x\<in>set xs. \<not> P x)"
  by (induction xs) auto


lemma first_index_append_old:
  "first_index P xs = Some i \<Longrightarrow> first_index P (xs @ ys) = Some i"
  by (induction xs arbitrary: i) (auto split: if_splits)



lemma length_upd [simp]: "length (upd xs i f) = length xs"
  by (simp add: upd_def)




















lemma momo_callback_found:
  assumes "momo_callback s cb = Inr (s1, msg)"
  obtains mid where
    "first_index (\<lambda>m. m_external_transaction_id m = Some (cb_external_transaction_id cb))
       (momo_payments s) = Some mid"
  using assms by (cases "first_index (\<lambda>m. m_external_transaction_id m = Some (cb_external_transaction_id cb))
       (momo_payments s)") (simp_all add: momo_callback_def)



lemma momo_callback_unrecognized:
  assumes "lower (cb_status cb) \<notin> {''success'', ''failed'', ''timeout'', ''cancelled''}"
    and "first_index (\<lambda>m. m_external_transaction_id m = Some (cb_external_transaction_id cb))
       (momo_payments s) = Some mid"
  shows "momo_callback s cb =
     Inr (s, if m_status (momo_payments s ! mid) = MoMo_SUCCESS
               \<or> m_status (momo_payments s ! mid) = MoMo_FAILED
             then ''Payment already processed''
             else ''Callback processed: '' @ cb_status cb)"
  using assms by (simp add: momo_callback_def Let_def)



lemma lower_examples:
  "lower ''timeout'' = ''timeout''" "lower ''FAILED'' = ''failed''"
  "lower ''Success'' = ''success''" "lower ''PENDING'' = ''pending''"
  by code_simp+


section \<open>Conservation lemmas\<close>






lemma commission_total_snoc:
  "commission_total (ts @ [t]) =
     commission_total ts + (if t_type t = COMMISSION then t_amount t else 0)"
  by (simp add: commission_total_def)

lemma completed_total_snoc:
  "completed_total ty (ts @ [t]) =
     completed_total ty ts + (if t_type t = ty \<and> t_status t = COMPLETED then t_amount t else 0)"
  by (simp add: completed_total_def)



lemma funds_add_txn:
  "funds (add_txn s t) = funds s + (if t_type t = COMMISSION then t_amount t else 0)"
  by (simp add: funds_def add_txn_def commission_total_snoc)

lemma net_deposits_add_txn:
  "t_type t \<noteq> DEPOSIT \<Longrightarrow> t_type t \<noteq> WITHDRAWAL \<Longrightarrow> net_deposits (add_txn s t) = net_deposits s"
  by (simp add: net_deposits_def add_txn_def completed_total_snoc)


lemma py_round_diff: "py_round (of_int a - of_int b) = a - b"
  using py_round_of_int [of "a - b"] by simp


lemma courier_payout_plus_commission: "courier_payout_of a + commission_of a = a"
  by (simp add: courier_payout_of_def py_round_diff)










lemma add_wallet_result:
  "add_wallet s uid cur = Inr (s', cid) \<Longrightarrow>
   s' = s\<lparr>wallets := wallets s @ [new_wallet uid cur]\<rparr> \<and> cid = length (wallets s)"
  by (auto simp: add_wallet_def split: if_splits)

lemma courier_wallet_or_new_result:
  assumes "courier_wallet_or_new s cw trip cur = Inr (s', cid)"
  shows "(cw = Some cid \<and> s' = s)
       \<or> (cw = None \<and> cid = length (wallets s)
           \<and> (\<exists>t. trip = Some t
                 \<and> s' = s\<lparr>wallets := wallets s @ [new_wallet (trip_courier_id t) cur]\<rparr>))"
  using assms
  by (auto simp: courier_wallet_or_new_def dest: add_wallet_result split: option.splits)














lemmas ex_escrow_defs =
  ex_held_db_def ex_hold_def ex_trip_def ex_user_def ex_admin_def ex_courier_def ex_wallet_def
  ex_deposit_txn_def empty_db_def completed_txn_def

lemmas auth_defs = require_any_authenticated_def require_system_admin_def RoleChecker_def

section \<open>Withdrawal and deposit\<close>







section \<open>Payment callbacks\<close>




text \<open>
  C10 (unrecognized callback status). A callback whose status, lowered, is none of
  \<open>success\<close>, \<open>failed\<close>, \<open>timeout\<close> and \<open>cancelled\<close> never changes the state: payment
  record, wallets and ledger stay as they are. When the external id belongs to a payment
  record the handler does not fail: it answers with an acknowledgement, which is
  \<open>Callback processed: \<close> followed by the status unless the record was already processed.
\<close>

theorem unrecognized_callback_status_is_ignored:
  assumes "lower (cb_status cb) \<notin> {''success'', ''failed'', ''timeout'', ''cancelled''}"
  shows "(\<forall>s' msg. momo_callback s cb = Inr (s', msg) \<longrightarrow> s' = s)
    \<and> (\<forall>mid. first_index
           (\<lambda>m. m_external_transaction_id m = Some (cb_external_transaction_id cb))
           (momo_payments s) = Some mid \<longrightarrow>
         momo_callback s cb =
           Inr (s, if m_status (momo_payments s ! mid) = MoMo_SUCCESS
                     \<or> m_status (momo_payments s ! mid) = MoMo_FAILED
                   then ''Payment already processed''
                   else ''Callback processed: '' @ cb_status cb))"
proof (intro conjI allI impI)
  fix s' msg
  assume run: "momo_callback s cb = Inr (s', msg)"
  then obtain mid where "first_index
           (\<lambda>m. m_external_transaction_id m = Some (cb_external_transaction_id cb))
           (momo_payments s) = Some mid"
    by (rule momo_callback_found)
  from momo_callback_unrecognized [OF assms this] run show "s' = s" by simp
next
  fix mid
  assume "first_index
           (\<lambda>m. m_external_transaction_id m = Some (cb_external_transaction_id cb))
           (momo_payments s) = Some mid"
  with assms show "momo_callback s cb =
           Inr (s, if m_status (momo_payments s ! mid) = MoMo_SUCCESS
                     \<or> m_status (momo_payments s ! mid) = MoMo_FAILED
                   then ''Payment already processed''
                   else ''Callback processed: '' @ cb_status cb)"
    by (rule momo_callback_unrecognized)
qed

theorem unrecognized_callback_status_is_ignored_witness:
  "lower (cb_status (ex_callback ''PENDING'')) \<notin> {''success'', ''failed'', ''timeout'', ''cancelled''}
   \<and> momo_callback ex_timeout_db (ex_callback ''PENDING'')
       = Inr (ex_timeout_db, ''Callback processed: PENDING'')"
proof -
  have h: "lower (cb_status (ex_callback ''PENDING''))
      \<notin> {''success'', ''failed'', ''timeout'', ''cancelled''}"
    by (simp add: ex_callback_def lower_examples)
  from unrecognized_callback_status_is_ignored [OF h, of ex_timeout_db]
  have "momo_callback ex_timeout_db (ex_callback ''PENDING'')
       = Inr (ex_timeout_db, ''Callback processed: PENDING'')"
    by (simp add: ex_timeout_db_def ex_callback_def empty_db_def)
  with h show ?thesis by simp
qed

section \<open>Escrow and disputes\<close>



text \<open>
  C7, as the claim states it, fails for a trip that has left \<open>PICKUP_PENDING\<close>: the
  endpoint checks the status of the trip before it looks for an existing hold, so the request
  for a trip in transit that has a held hold is refused with the trip-status error (400),
  not with the duplicate-hold conflict (409).
\<close>

theorem hold_for_moved_trip_counterexample:
  "first_index (\<lambda>e. e_trip_id e = 0) (escrow_holds (ex_held_db IN_TRANSIT (5 / 100))) = Some 0
   \<and> e_status (escrow_holds (ex_held_db IN_TRANSIT (5 / 100)) ! 0) = HELD
   \<and> create_escrow_hold (ex_held_db IN_TRANSIT (5 / 100)) 0 ex_user
       = Inl Trip_not_pickup_pending
   \<and> status_code Trip_not_pickup_pending = 400
   \<and> status_code Escrow_already_exists = 409"
  by (simp add: create_escrow_hold_def ex_escrow_defs auth_defs row_def)

text \<open>
  C7 (no double hold), amended. For a trip that already has an escrow hold, in whatever
  state, \<open>create_escrow_hold\<close> always fails, so it creates no hold, no ledger entry and
  changes no balance. The error is that of the first check that fails: the role check, the
  lookup of the trip, the status of the trip, or the duplicate-hold conflict; it is the
  duplicate-hold conflict (409) whenever the caller passes the role check and the trip
  exists and is still \<open>PICKUP_PENDING\<close>.
\<close>

theorem no_double_hold:
  assumes "first_index (\<lambda>e. e_trip_id e = trip_id) (escrow_holds s) = Some i"
  shows "(\<exists>e. create_escrow_hold s trip_id user = Inl e
            \<and> e \<in> {Insufficient_permissions, Trip_not_found, Trip_not_pickup_pending,
                    Escrow_already_exists})
    \<and> (require_any_authenticated user = Inr user \<longrightarrow>
         (\<forall>trip. row (freight_trips s) trip_id = Some trip
                  \<and> trip_status trip = PICKUP_PENDING \<longrightarrow>
            create_escrow_hold s trip_id user = Inl Escrow_already_exists
            \<and> status_code Escrow_already_exists = 409))"
  using assms
  by (auto simp: create_escrow_hold_def auth_defs split: sum.splits option.splits if_splits)

theorem no_double_hold_witness:
  "first_index (\<lambda>e. e_trip_id e = 0) (escrow_holds (ex_held_db PICKUP_PENDING (5 / 100))) = Some 0
   \<and> e_status (escrow_holds (ex_held_db PICKUP_PENDING (5 / 100)) ! 0) = HELD
   \<and> create_escrow_hold (ex_held_db PICKUP_PENDING (5 / 100)) 0 ex_user
       = Inl Escrow_already_exists"
proof -
  have h: "first_index (\<lambda>e. e_trip_id e = 0)
      (escrow_holds (ex_held_db PICKUP_PENDING (5 / 100))) = Some 0"
    by (simp add: ex_escrow_defs)
  from no_double_hold [OF h, of ex_user] h show ?thesis
    by (simp add: ex_escrow_defs auth_defs row_def)
qed


end
